theory Spec2Isabelle
  imports Complex_Main "HOL-Library.Sublist" "HOL-Library.AList" "HOL-Library.Multiset"
begin

section \<open>URLs, the network and traces\<close>

text \<open>
  The crawler sources hand URLs around as Python strings and take them apart with the
  standard library's \<^verbatim>\<open>urlparse\<close>. A URL is carried here in the parsed form that
  \<^verbatim>\<open>urlparse\<close> returns: \<^verbatim>\<open>scheme\<close>, \<^verbatim>\<open>netloc\<close>, \<^verbatim>\<open>path\<close>, and the remainder
  (parameters, query, fragment) that the crawler never inspects.
\<close>

record parsed_url =
  scheme :: string
  netloc :: string
  path :: string
  rest :: string

text \<open>
  \<^verbatim>\<open>urllib.robotparser.RobotFileParser\<close> is a standard-library object. Of a parser that
  has been read, the sources only call \<^verbatim>\<open>can_fetch(user_agent, url)\<close>; the parser is
  therefore represented by that function.
\<close>

type_synonym robot_file_parser = "string \<Rightarrow> parsed_url \<Rightarrow> bool"

text \<open>
  What a \<^verbatim>\<open>PageFetcher\<close> does to the outside world, in order: a page request
  (\<^verbatim>\<open>requests.get\<close>), a robots.txt download (\<^verbatim>\<open>rp.read()\<close>) that returned or that
  raised, a \<^verbatim>\<open>time.sleep\<close> of so many seconds.
\<close>

datatype event = Get parsed_url | ReadRobots string | ReadRobotsRaised string | Sleep nat

text \<open>
  The network is an oracle. Its answer may depend on how much has happened so far (the
  number of events already emitted), so a host may fail once and answer later.
  \<^item> \<open>http_get n url\<close> is \<open>Some text\<close> when \<^verbatim>\<open>requests.get\<close> followed by
    \<^verbatim>\<open>raise_for_status()\<close> succeeds, and \<open>None\<close> when either raises
    (\<^verbatim>\<open>RequestException\<close>, \<^verbatim>\<open>Timeout\<close>, \<^verbatim>\<open>TooManyRedirects\<close>).
  \<^item> \<open>robots_read n robots_url\<close> is \<open>Some rp\<close> when \<^verbatim>\<open>rp.set_url\<close>; \<^verbatim>\<open>rp.read()\<close>
    return, and \<open>None\<close> when they raise.
\<close>

record env =
  http_get :: "nat \<Rightarrow> parsed_url \<Rightarrow> string option"
  robots_read :: "nat \<Rightarrow> string \<Rightarrow> robot_file_parser option"

section \<open>page_fetcher.py: PageFetcher\<close>

text \<open>
  The fields of \<^verbatim>\<open>PageFetcher.__init__\<close>, and the trace of its effects (\<open>pf_trace\<close>,
  which the Python object does not hold: it records the calls the object makes).
\<close>

record page_fetcher =
  pf_user_agent :: string
  pf_timeout :: int
  pf_max_retries :: int
  pf_visited_urls :: "parsed_url set"
  pf_robots_cache :: "string \<rightharpoonup> robot_file_parser"
  pf_trace :: "event list"

definition PageFetcher :: "string \<Rightarrow> int \<Rightarrow> int \<Rightarrow> page_fetcher" where
  "PageFetcher user_agent timeout max_retries =
     \<lparr>pf_user_agent = user_agent, pf_timeout = timeout, pf_max_retries = max_retries,
      pf_visited_urls = {}, pf_robots_cache = Map.empty, pf_trace = []\<rparr>"

text \<open>\<^verbatim>\<open>base_url = f"{parsed_url.scheme}://{parsed_url.netloc}/robots.txt"\<close>\<close>

definition robots_txt_url :: "parsed_url \<Rightarrow> string" where
  "robots_txt_url u = scheme u @ ''://'' @ netloc u @ ''/robots.txt''"

text \<open>
  \<^verbatim>\<open>PageFetcher.is_allowed_by_robots\<close>: a cached parser answers; otherwise robots.txt is
  read, and the parser is stored only when the read returns. When it raises, the method
  returns \<^verbatim>\<open>True\<close> and stores nothing.
\<close>

definition is_allowed_by_robots ::
  "env \<Rightarrow> page_fetcher \<Rightarrow> parsed_url \<Rightarrow> bool \<times> page_fetcher" where
  "is_allowed_by_robots e s url =
     (let base_url = robots_txt_url url in
      case pf_robots_cache s base_url of
        Some rp \<Rightarrow> (rp (pf_user_agent s) url, s)
      | None \<Rightarrow>
          (case robots_read e (length (pf_trace s)) base_url of
             Some rp \<Rightarrow>
               (rp (pf_user_agent s) url,
                s\<lparr>pf_robots_cache := (pf_robots_cache s)(base_url \<mapsto> rp),
                  pf_trace := pf_trace s @ [ReadRobots base_url]\<rparr>)
           | None \<Rightarrow> (True, s\<lparr>pf_trace := pf_trace s @ [ReadRobotsRaised base_url]\<rparr>)))"

text \<open>
  The retry loop of \<^verbatim>\<open>PageFetcher.fetch\<close>:
  \<^verbatim>\<open>while attempt < self.max_retries\<close>, one request; on an exception
  \<^verbatim>\<open>attempt += 1\<close> and then \<^verbatim>\<open>time.sleep(2 ** attempt)\<close>.
\<close>

function fetch_loop ::
  "env \<Rightarrow> page_fetcher \<Rightarrow> parsed_url \<Rightarrow> nat \<Rightarrow> string option \<times> page_fetcher" where
  "fetch_loop e s url attempt =
     (if int attempt < pf_max_retries s then
        (case http_get e (length (pf_trace s)) url of
           Some text \<Rightarrow> (Some text, s\<lparr>pf_trace := pf_trace s @ [Get url]\<rparr>)
         | None \<Rightarrow>
             fetch_loop e (s\<lparr>pf_trace := pf_trace s @ [Get url, Sleep (2 ^ (attempt + 1))]\<rparr>)
               url (attempt + 1))
      else (None, s))"
  by pat_completeness auto
termination
  by (relation "measure (\<lambda>(e, s, url, attempt). nat (pf_max_retries s) - attempt)") auto

declare fetch_loop.simps [simp del]

definition fetch :: "env \<Rightarrow> page_fetcher \<Rightarrow> parsed_url \<Rightarrow> string option \<times> page_fetcher" where
  "fetch e s url =
     (case is_allowed_by_robots e s url of
        (False, s') \<Rightarrow> (None, s')
      | (True, s') \<Rightarrow> fetch_loop e s' url 0)"

text \<open>The schedule the loop follows when every attempt fails, from attempt \<open>a\<close> on.\<close>

definition backoff_events :: "parsed_url \<Rightarrow> nat \<Rightarrow> nat \<Rightarrow> event list" where
  "backoff_events url a n = concat (map (\<lambda>i. [Get url, Sleep (2 * 2 ^ i)]) [a..<n])"

text \<open>A network on which every page request fails and robots.txt allows everything.\<close>

definition env_all_fail :: env where
  "env_all_fail =
     \<lparr>http_get = (\<lambda>n url. None), robots_read = (\<lambda>n u. Some (\<lambda>agent url. True))\<rparr>"

definition url_a :: parsed_url where
  "url_a = \<lparr>scheme = ''http'', netloc = ''h'', path = ''/a'', rest = ''''\<rparr>"

text \<open>The sleeps of a trace, in order.\<close>

definition sleeps :: "event list \<Rightarrow> nat list" where
  "sleeps tr = concat (map (\<lambda>ev. case ev of Sleep n \<Rightarrow> [n] | _ \<Rightarrow> []) tr)"

text \<open>
  \<^verbatim>\<open>fetch\<close> calls on one \<^verbatim>\<open>PageFetcher\<close> made one after the other: each call returns
  before the next one starts. \<^verbatim>\<open>fetch_pages_concurrently\<close> and the workers of
  \<^verbatim>\<open>CrawlerManager\<close> call \<^verbatim>\<open>fetch\<close> from several threads; calls that overlap are not
  runs of this function (see \<open>read_and_store\<close> below).
\<close>

definition fetch_all :: "env \<Rightarrow> page_fetcher \<Rightarrow> parsed_url list \<Rightarrow> page_fetcher" where
  "fetch_all e s urls = foldl (\<lambda>s url. snd (fetch e s url)) s urls"

text \<open>
  Modelled from the standard library (\<^verbatim>\<open>urllib.robotparser\<close>, not part of this
  repository): \<^verbatim>\<open>RobotFileParser.read()\<close> catches the \<^verbatim>\<open>HTTPError\<close> of a robots.txt
  answered with status 401 or 403, sets \<^verbatim>\<open>disallow_all\<close> and returns; \<^verbatim>\<open>can_fetch\<close> of such
  a parser is \<^verbatim>\<open>False\<close> for every agent and URL.
\<close>

definition rfp_after_403 :: robot_file_parser where
  "rfp_after_403 = (\<lambda>agent url. False)"

text \<open>A network whose robots.txt is answered with status 403, and one where it is down.\<close>

definition env_robots_403 :: env where
  "env_robots_403 =
     \<lparr>http_get = (\<lambda>n url. Some ''<html></html>''),
      robots_read = (\<lambda>n u. Some rfp_after_403)\<rparr>"

definition env_robots_down :: env where
  "env_robots_down =
     \<lparr>http_get = (\<lambda>n url. Some ''<html></html>''), robots_read = (\<lambda>n u. None)\<rparr>"

text \<open>
  \<^verbatim>\<open>is_allowed_by_robots\<close> holds no lock. Between its test
  \<^verbatim>\<open>base_url in self.robots_cache\<close> and the \<^verbatim>\<open>else\<close> branch another thread can run. The
  two parts, each taken as atomic: the test, and the branch entered after a miss
  (\<^verbatim>\<open>rp.read()\<close>, then the store and \<^verbatim>\<open>rp.can_fetch\<close>, or the handler).
\<close>

definition robots_cache_miss :: "page_fetcher \<Rightarrow> parsed_url \<Rightarrow> bool" where
  "robots_cache_miss s url = (pf_robots_cache s (robots_txt_url url) = None)"

definition read_and_store :: "env \<Rightarrow> page_fetcher \<Rightarrow> parsed_url \<Rightarrow> bool \<times> page_fetcher" where
  "read_and_store e s url =
     (let base_url = robots_txt_url url in
      case robots_read e (length (pf_trace s)) base_url of
        Some rp \<Rightarrow>
          (rp (pf_user_agent s) url,
           s\<lparr>pf_robots_cache := (pf_robots_cache s)(base_url \<mapsto> rp),
             pf_trace := pf_trace s @ [ReadRobots base_url]\<rparr>)
      | None \<Rightarrow> (True, s\<lparr>pf_trace := pf_trace s @ [ReadRobotsRaised base_url]\<rparr>))"

text \<open>
  The invariant behind the cache: no robots.txt URL has been read with success more than
  once, and none that is missing from the cache has been read with success at all.
\<close>

definition read_once :: "page_fetcher \<Rightarrow> bool" where
  "read_once s =
     (\<forall>b. count_list (pf_trace s) (ReadRobots b) \<le>
            (if pf_robots_cache s b = None then 0 else 1))"

text \<open>A fetcher that has read the robots.txt of host \<^verbatim>\<open>h\<close>, which allows everything.\<close>

definition cached_fetcher :: page_fetcher where
  "cached_fetcher =
     (PageFetcher ''bot'' 10 1)
       \<lparr>pf_robots_cache := [''http://h/robots.txt'' \<mapsto> (\<lambda>agent url. True)],
        pf_trace := [ReadRobots ''http://h/robots.txt'']\<rparr>"

section \<open>Python strings and exceptions\<close>

text \<open>
  A character is a code point from 0 to 255 (Latin-1): the methods below are Python's
  \<^verbatim>\<open>str\<close> methods on such text. The exceptions are the ones the crawler sources can
  raise while parsing.
\<close>

datatype py_error = IndexError | ValueError | UnboundLocalError | RuntimeError

text \<open>
  \<^verbatim>\<open>c.isspace()\<close>: tab, LF, VT, FF, CR, the separators 28 to 31, space, and in the upper
  half NEL (133) and the no-break space (160).
\<close>

definition is_space :: "char \<Rightarrow> bool" where
  "is_space c = ((of_char c :: nat) \<in> set [9, 10, 11, 12, 13, 28, 29, 30, 31, 32, 133, 160])"

text \<open>\<^verbatim>\<open>s.strip()\<close>\<close>

definition strip :: "string \<Rightarrow> string" where
  "strip s = rev (dropWhile is_space (rev (dropWhile is_space s)))"

text \<open>
  \<^verbatim>\<open>s.lower()\<close>: the letters A to Z, and the upper-case letters of the upper half (192
  to 222 without the multiplication sign 215), move up by 32.
\<close>

definition lower_char :: "char \<Rightarrow> char" where
  "lower_char c =
     (case map_of (zip ''ABCDEFGHIJKLMNOPQRSTUVWXYZ'' ''abcdefghijklmnopqrstuvwxyz'') c of
        Some d \<Rightarrow> d
      | None \<Rightarrow>
          if 192 \<le> (of_char c :: nat) \<and> (of_char c :: nat) \<le> 222 \<and> (of_char c :: nat) \<noteq> 215
          then char_of ((of_char c :: nat) + 32) else c)"

definition lower :: "string \<Rightarrow> string" where
  "lower s = map lower_char s"

text \<open>\<^verbatim>\<open>s.startswith(p)\<close>\<close>

definition startswith :: "string \<Rightarrow> string \<Rightarrow> bool" where
  "startswith s p = prefix p s"

text \<open>\<^verbatim>\<open>s.split(d)\<close> for a one-character separator, and \<^verbatim>\<open>s.split(d, 1)\<close>.\<close>

fun split_on :: "char \<Rightarrow> string \<Rightarrow> string list" where
  "split_on d [] = [[]]"
| "split_on d (c # cs) =
     (if c = d then [] # split_on d cs
      else (case split_on d cs of w # ws \<Rightarrow> (c # w) # ws | [] \<Rightarrow> [[c]]))"

definition split_on1 :: "char \<Rightarrow> string \<Rightarrow> string list" where
  "split_on1 d s =
     (if d \<in> set s then [takeWhile (\<lambda>c. c \<noteq> d) s, tl (dropWhile (\<lambda>c. c \<noteq> d) s)] else [s])"

text \<open>\<^verbatim>\<open>xs[i]\<close> for \<open>i \<ge> 0\<close>: out of range raises \<^verbatim>\<open>IndexError\<close>.\<close>

definition py_index :: "'a list \<Rightarrow> nat \<Rightarrow> py_error + 'a" where
  "py_index xs i = (if i < length xs then Inr (xs ! i) else Inl IndexError)"

text \<open>
  \<^verbatim>\<open>s.splitlines()\<close>: lines end at LF, CR, CR LF, VT, FF, the separators 28 to 30 and
  NEL (133); no empty last line after a final line end.
\<close>

definition is_linebreak :: "char \<Rightarrow> bool" where
  "is_linebreak c = ((of_char c :: nat) \<in> set [10, 11, 12, 13, 28, 29, 30, 133])"

fun splitlines_from :: "string \<Rightarrow> string \<Rightarrow> string list" where
  "splitlines_from cur [] = (if cur = [] then [] else [rev cur])"
| "splitlines_from cur (c # cs) =
     (if is_linebreak c then
        (if c = CHR 0x0D then
           (case cs of
              [] \<Rightarrow> [rev cur]
            | d # ds \<Rightarrow>
                if d = CHR 0x0A then rev cur # splitlines_from [] ds
                else rev cur # splitlines_from [] cs)
         else rev cur # splitlines_from [] cs)
      else splitlines_from (c # cur) cs)"

definition splitlines :: "string \<Rightarrow> string list" where
  "splitlines s = splitlines_from [] s"

text \<open>
  \<^verbatim>\<open>int(s)\<close>: surrounding white space, an optional sign, then decimal digits (0 to 9, the
  only decimal digits among the code points up to 255)
  in which single underscores may separate digits. Anything else raises \<^verbatim>\<open>ValueError\<close>
  (\<open>None\<close> here).
\<close>

definition is_digit :: "char \<Rightarrow> bool" where
  "is_digit c = (48 \<le> (of_char c :: nat) \<and> (of_char c :: nat) \<le> 57)"

fun digit_groups :: "string \<Rightarrow> bool" where
  "digit_groups [] = False"
| "digit_groups [c] = is_digit c"
| "digit_groups (c # d # cs) =
     (is_digit c \<and> (if d = CHR ''_'' then digit_groups cs else digit_groups (d # cs)))"

definition digits_value :: "string \<Rightarrow> nat" where
  "digits_value ds = foldl (\<lambda>acc c. 10 * acc + ((of_char c :: nat) - 48)) 0 ds"

definition py_int :: "string \<Rightarrow> int option" where
  "py_int s =
     (let t = strip s;
          neg = (case t of [] \<Rightarrow> False | c # _ \<Rightarrow> c = CHR ''-'');
          body = (case t of [] \<Rightarrow> [] | c # r \<Rightarrow> if c = CHR ''-'' \<or> c = CHR ''+'' then r else t)
      in if digit_groups body
         then Some ((if neg then - 1 else 1) * int (digits_value (filter (\<lambda>c. c \<noteq> CHR ''_'') body)))
         else None)"

section \<open>Python regular expressions, as far as the crawler uses them\<close>

text \<open>
  \<^verbatim>\<open>re.escape\<close> (Python 3.7 and later) puts a backslash before each of the characters
  \<^verbatim>\<open>()[]{}?*+-|^$\.&~#\<close>, space, tab, LF, CR, VT, FF, and leaves every other character.
\<close>

definition backslash :: char where
  "backslash = CHR 0x5C"

definition special_chars :: "char list" where
  "special_chars =
     [CHR ''('', CHR '')'', CHR ''['', CHR '']'', CHR ''{'', CHR ''}'', CHR ''?'', CHR ''*'',
      CHR ''+'', CHR ''-'', CHR ''|'', CHR ''^'', CHR ''$'', CHR 0x5C, CHR ''.'', CHR ''&'',
      CHR ''~'', CHR ''#'', CHR '' '', CHR 0x09, CHR 0x0A, CHR 0x0D, CHR 0x0B, CHR 0x0C]"

definition re_escape :: "string \<Rightarrow> string" where
  "re_escape s = concat (map (\<lambda>c. if c \<in> set special_chars then [backslash, c] else [c]) s)"

text \<open>
  The characters with a meaning of their own in a pattern, and the ASCII letters and
  digits (after a backslash they name a class, a group or an anchor).
\<close>

definition re_metachars :: "char list" where
  "re_metachars =
     [CHR ''.'', CHR ''^'', CHR ''$'', CHR ''*'', CHR ''+'', CHR ''?'', CHR ''{'', CHR ''}'',
      CHR ''['', CHR '']'', CHR 0x5C, CHR ''|'', CHR ''('', CHR '')'']"

definition is_alnum :: "char \<Rightarrow> bool" where
  "is_alnum c =
     (let n = (of_char c :: nat)
      in (48 \<le> n \<and> n \<le> 57) \<or> (65 \<le> n \<and> n \<le> 90) \<or> (97 \<le> n \<and> n \<le> 122))"

text \<open>
  The patterns modelled are the literal ones: a sequence of ordinary characters and of
  backslash escapes of characters that are not letters or digits. \<open>re_literal p\<close> is the
  text such a pattern stands for, and \<open>None\<close> for any other pattern (one with an
  unescaped metacharacter, an escape of a letter or digit, or a backslash at the end),
  whose meaning in Python is not modelled.
\<close>

fun re_literal :: "string \<Rightarrow> string option" where
  "re_literal [] = Some []"
| "re_literal (c # p) =
     (if c = backslash then
        (case p of
           [] \<Rightarrow> None
         | d # p' \<Rightarrow> if is_alnum d then None else map_option ((#) d) (re_literal p'))
      else if c \<in> set re_metachars then None
      else map_option ((#) c) (re_literal p))"

text \<open>
  \<^verbatim>\<open>re.match(pattern, s)\<close> matches at the start of \<open>s\<close>: for a literal pattern it
  succeeds when \<open>s\<close> starts with the pattern's text.
\<close>

definition re_match :: "string \<Rightarrow> string \<Rightarrow> bool option" where
  "re_match p s = map_option (\<lambda>l. prefix l s) (re_literal p)"

section \<open>robots_parser.py: RobotsParser\<close>

text \<open>
  The fields of \<^verbatim>\<open>RobotsParser.__init__\<close>. \<open>rp_rules\<close> is the dictionary \<^verbatim>\<open>self.rules\<close>,
  as the list of its items in insertion order; it has the keys \<^verbatim>\<open>'allow'\<close> and
  \<^verbatim>\<open>'disallow'\<close> once a rule of that kind has been stored.
\<close>

record robots_parser =
  rp_user_agent :: string
  rp_rules :: "(string \<times> string list) list"
  rp_sitemaps :: "string list"
  rp_crawl_delay :: "int option"

definition RobotsParser :: "string \<Rightarrow> robots_parser" where
  "RobotsParser user_agent =
     \<lparr>rp_user_agent = user_agent, rp_rules = [], rp_sitemaps = [], rp_crawl_delay = None\<rparr>"

text \<open>
  \<^verbatim>\<open>if key not in self.rules: self.rules[key] = []\<close> followed by
  \<^verbatim>\<open>self.rules[key].append(re.escape(path))\<close>.
\<close>

definition append_rule :: "robots_parser \<Rightarrow> string \<Rightarrow> string \<Rightarrow> robots_parser" where
  "append_rule s key p =
     s\<lparr>rp_rules :=
         AList.update key
           ((case map_of (rp_rules s) key of None \<Rightarrow> [] | Some rs \<Rightarrow> rs) @ [re_escape p])
           (rp_rules s)\<rparr>"

text \<open>
  \<^verbatim>\<open>RobotsParser._parse_rule\<close>. The value of a \<^verbatim>\<open>Crawl-delay\<close> line goes through \<^verbatim>\<open>int\<close>
  with no handler around it: a value that is not an integer raises \<^verbatim>\<open>ValueError\<close>.
\<close>

definition parse_rule :: "robots_parser \<Rightarrow> string \<Rightarrow> py_error + robots_parser" where
  "parse_rule s line =
     (if startswith (lower line) ''disallow:'' then
        (case py_index (split_on1 CHR '':'' line) 1 of
           Inl e \<Rightarrow> Inl e
         | Inr v \<Rightarrow> if strip v \<noteq> [] then Inr (append_rule s ''disallow'' (strip v)) else Inr s)
      else if startswith (lower line) ''allow:'' then
        (case py_index (split_on1 CHR '':'' line) 1 of
           Inl e \<Rightarrow> Inl e
         | Inr v \<Rightarrow> if strip v \<noteq> [] then Inr (append_rule s ''allow'' (strip v)) else Inr s)
      else if startswith (lower line) ''crawl-delay:'' then
        (case py_index (split_on1 CHR '':'' line) 1 of
           Inl e \<Rightarrow> Inl e
         | Inr v \<Rightarrow>
             (case py_int (strip v) of
                None \<Rightarrow> Inl ValueError
              | Some n \<Rightarrow> Inr (s\<lparr>rp_crawl_delay := Some n\<rparr>)))
      else Inr s)"

text \<open>
  The test of \<^verbatim>\<open>RobotsParser.parse_robots\<close> that lets a line through to \<^verbatim>\<open>_parse_rule\<close>:
  \<^verbatim>\<open>current_user_agent and (self.user_agent == '*' or current_user_agent == self.user_agent)\<close>.
\<close>

definition rule_line_applies :: "string \<Rightarrow> string option \<Rightarrow> bool" where
  "rule_line_applies user_agent current_user_agent =
     (case current_user_agent of
        None \<Rightarrow> False
      | Some a \<Rightarrow> a \<noteq> [] \<and> (user_agent = ''*'' \<or> a = user_agent))"

text \<open>
  The loop of \<^verbatim>\<open>RobotsParser.parse_robots\<close> over the lines; \<open>cua\<close> is
  \<^verbatim>\<open>current_user_agent\<close>. A \<^verbatim>\<open>User-agent\<close> line is split with \<^verbatim>\<open>line.split(':')[1]\<close>
  (no limit on the number of splits).
\<close>

fun parse_lines :: "string option \<Rightarrow> robots_parser \<Rightarrow> string list \<Rightarrow> py_error + robots_parser" where
  "parse_lines cua s [] = Inr s"
| "parse_lines cua s (l # ls) =
     (if strip l = [] \<or> startswith (strip l) ''#'' then parse_lines cua s ls
      else if startswith (lower (strip l)) ''user-agent:'' then
        (case py_index (split_on CHR '':'' (strip l)) 1 of
           Inl e \<Rightarrow> Inl e
         | Inr v \<Rightarrow> parse_lines (Some (strip v)) s ls)
      else if rule_line_applies (rp_user_agent s) cua then
        (case parse_rule s (strip l) of
           Inl e \<Rightarrow> Inl e
         | Inr s' \<Rightarrow> parse_lines cua s' ls)
      else if startswith (lower (strip l)) ''sitemap:'' then
        (case py_index (split_on1 CHR '':'' (strip l)) 1 of
           Inl e \<Rightarrow> Inl e
         | Inr v \<Rightarrow> parse_lines cua (s\<lparr>rp_sitemaps := rp_sitemaps s @ [strip v]\<rparr>) ls)
      else parse_lines cua s ls)"

definition parse_robots :: "robots_parser \<Rightarrow> string \<Rightarrow> py_error + robots_parser" where
  "parse_robots s robots_text = parse_lines None s (splitlines robots_text)"

text \<open>
  What \<^verbatim>\<open>requests.get\<close> gives: a response with its status code and text, or an exception
  of the \<^verbatim>\<open>requests\<close> library.
\<close>

datatype http_result = Response int string | RequestException

text \<open>
  \<^verbatim>\<open>RobotsParser.fetch_robots\<close>, given the outcome of the request: only
  \<^verbatim>\<open>requests.RequestException\<close> is caught, so an exception of \<^verbatim>\<open>parse_robots\<close> leaves
  the method.
\<close>

definition fetch_robots :: "robots_parser \<Rightarrow> http_result \<Rightarrow> py_error + robots_parser" where
  "fetch_robots s r =
     (case r of
        Response status_code text \<Rightarrow> if status_code = 200 then parse_robots s text else Inr s
      | RequestException \<Rightarrow> Inr s)"

text \<open>\<^verbatim>\<open>for rule in self.rules[key]: if re.match(rule, path)\<close>: does some rule match?\<close>

definition some_rule_matches :: "robots_parser \<Rightarrow> string \<Rightarrow> string \<Rightarrow> bool" where
  "some_rule_matches s key p =
     (case map_of (rp_rules s) key of
        None \<Rightarrow> False
      | Some rs \<Rightarrow> list_ex (\<lambda>rule. re_match rule p = Some True) rs)"

text \<open>
  \<^verbatim>\<open>RobotsParser.is_allowed\<close>: the \<^verbatim>\<open>allow\<close> rules first, then the \<^verbatim>\<open>disallow\<close> rules,
  then \<^verbatim>\<open>True\<close>. The path is \<^verbatim>\<open>urlparse(url).path\<close>.
\<close>

definition is_allowed :: "robots_parser \<Rightarrow> parsed_url \<Rightarrow> bool" where
  "is_allowed s url =
     (if some_rule_matches s ''allow'' (path url) then True
      else if some_rule_matches s ''disallow'' (path url) then False
      else True)"

text \<open>The rules stored under a key (\<^verbatim>\<open>self.rules.get(key, [])\<close>), for stating properties.\<close>

definition stored_rules :: "robots_parser \<Rightarrow> string \<Rightarrow> string list" where
  "stored_rules s key = (case map_of (rp_rules s) key of None \<Rightarrow> [] | Some rs \<Rightarrow> rs)"

text \<open>The value of a rule line: \<^verbatim>\<open>line.split(':', 1)[1].strip()\<close> when the line has a colon.\<close>

definition rule_value :: "string \<Rightarrow> string" where
  "rule_value line = strip (tl (dropWhile (\<lambda>c. c \<noteq> CHR '':'') line))"

text \<open>URLs on the host \<^verbatim>\<open>h\<close> with a given path, for concrete checks.\<close>

definition url_path :: "string \<Rightarrow> parsed_url" where
  "url_path p = \<lparr>scheme = ''http'', netloc = ''h'', path = p, rest = ''''\<rparr>"

text \<open>Two robots.txt files for concrete checks, and the parsers that reading them gives.\<close>

definition robots_admin :: string where
  "robots_admin = ''User-agent: *\<newline>Disallow: /admin''"

definition robots_admin_public :: string where
  "robots_admin_public = ''User-agent: *\<newline>Disallow: /admin\<newline>Allow: /admin/public''"

definition parser_admin :: robots_parser where
  "parser_admin = (RobotsParser ''*'')\<lparr>rp_rules := [(''disallow'', [''/admin''])]\<rparr>"

definition parser_admin_public :: robots_parser where
  "parser_admin_public =
     (RobotsParser ''*'')\<lparr>rp_rules := [(''disallow'', [''/admin'']), (''allow'', [''/admin/public''])]\<rparr>"

section \<open>crawler_policies/politeness_policy.py: RobotsParser\<close>

text \<open>
  The second robots.txt parser of the repository, in \<^verbatim>\<open>politeness_policy.py\<close>; its class
  is called \<^verbatim>\<open>RobotsParser\<close> too, and \<open>policy_robots_parser\<close> here. Python floats
  (\<^verbatim>\<open>crawl_delay\<close>, times) are idealised as real numbers.
\<close>

record policy_robots_parser =
  prp_user_agent :: string
  disallowed_paths :: "string list"
  crawl_delay :: "real option"

text \<open>
  The loop of \<^verbatim>\<open>RobotsParser.parse_robots_txt\<close>. The local variable \<^verbatim>\<open>applicable\<close> is
  assigned by the first \<^verbatim>\<open>User-agent\<close> line only: \<open>None\<close> is the unassigned variable,
  and reading it raises \<^verbatim>\<open>UnboundLocalError\<close>. \<open>float_of\<close> is Python's \<^verbatim>\<open>float\<close>,
  \<open>None\<close> when it raises \<^verbatim>\<open>ValueError\<close>.
\<close>

fun parse_robots_txt_lines ::
  "(string \<Rightarrow> real option) \<Rightarrow> bool option \<Rightarrow> policy_robots_parser \<Rightarrow> string list \<Rightarrow>
   py_error + policy_robots_parser" where
  "parse_robots_txt_lines float_of applicable s [] = Inr s"
| "parse_robots_txt_lines float_of applicable s (l # ls) =
     (if strip l = [] \<or> startswith (strip l) ''#'' then
        parse_robots_txt_lines float_of applicable s ls
      else if startswith (lower (strip l)) ''user-agent:'' then
        (case py_index (split_on1 CHR '':'' (strip l)) 1 of
           Inl e \<Rightarrow> Inl e
         | Inr v \<Rightarrow>
             parse_robots_txt_lines float_of
               (Some (strip v = ''*'' \<or> strip v = prp_user_agent s)) s ls)
      else
        (case applicable of
           None \<Rightarrow> Inl UnboundLocalError
         | Some a \<Rightarrow>
             if a \<and> startswith (lower (strip l)) ''disallow:'' then
               (case py_index (split_on1 CHR '':'' (strip l)) 1 of
                  Inl e \<Rightarrow> Inl e
                | Inr v \<Rightarrow>
                    if strip v \<noteq> [] then
                      parse_robots_txt_lines float_of applicable
                        (s\<lparr>disallowed_paths := disallowed_paths s @ [strip v]\<rparr>) ls
                    else parse_robots_txt_lines float_of applicable s ls)
             else if a \<and> startswith (lower (strip l)) ''crawl-delay:'' then
               (case py_index (split_on1 CHR '':'' (strip l)) 1 of
                  Inl e \<Rightarrow> Inl e
                | Inr v \<Rightarrow>
                    (case float_of (strip v) of
                       None \<Rightarrow> Inl ValueError
                     | Some d \<Rightarrow>
                         parse_robots_txt_lines float_of applicable
                           (s\<lparr>crawl_delay := Some d\<rparr>) ls))
             else parse_robots_txt_lines float_of applicable s ls))"

definition parse_robots_txt ::
  "(string \<Rightarrow> real option) \<Rightarrow> policy_robots_parser \<Rightarrow> string \<Rightarrow> py_error + policy_robots_parser"
  where
  "parse_robots_txt float_of s robots_txt_content =
     parse_robots_txt_lines float_of None s (splitlines robots_txt_content)"

text \<open>
  \<^verbatim>\<open>RobotsParser.fetch_robots_txt\<close>, given the outcome of \<^verbatim>\<open>make_request\<close>: the text of a
  response with status 200 is parsed, any other response is left alone, and every
  exception (of the request or of the parsing) is raised again as \<^verbatim>\<open>RuntimeError\<close>.
\<close>

definition fetch_robots_txt ::
  "(string \<Rightarrow> real option) \<Rightarrow> policy_robots_parser \<Rightarrow> http_result \<Rightarrow>
   py_error + policy_robots_parser" where
  "fetch_robots_txt float_of s r =
     (case r of
        Response status_code text \<Rightarrow>
          if status_code = 200 then
            (case parse_robots_txt float_of s text of
               Inl e \<Rightarrow> Inl RuntimeError
             | Inr s' \<Rightarrow> Inr s')
          else Inr s
      | RequestException \<Rightarrow> Inl RuntimeError)"

text \<open>\<^verbatim>\<open>RobotsParser.__init__\<close>: the fields, then \<^verbatim>\<open>fetch_robots_txt\<close>.\<close>

definition PolicyRobotsParser ::
  "(string \<Rightarrow> real option) \<Rightarrow> http_result \<Rightarrow> string \<Rightarrow> py_error + policy_robots_parser" where
  "PolicyRobotsParser float_of r user_agent =
     fetch_robots_txt float_of
       \<lparr>prp_user_agent = user_agent, disallowed_paths = [], crawl_delay = None\<rparr> r"

text \<open>
  \<^verbatim>\<open>RobotsParser.can_fetch(user_agent, url)\<close>: \<^verbatim>\<open>False\<close> when the URL's path starts with a
  stored path. The \<^verbatim>\<open>user_agent\<close> argument is not used.
\<close>

definition can_fetch :: "policy_robots_parser \<Rightarrow> string \<Rightarrow> parsed_url \<Rightarrow> bool" where
  "can_fetch rp user_agent url =
     (\<not> list_ex (\<lambda>disallowed_path. startswith (path url) disallowed_path) (disallowed_paths rp))"

section \<open>crawler_policies/politeness_policy.py: PolitenessPolicy\<close>

text \<open>
  What a \<^verbatim>\<open>PolitenessPolicy\<close> does to the outside world: a request for the robots.txt
  of a host (\<^verbatim>\<open>netloc\<close>), after which the parser's constructor returned (\<open>GotRobots\<close>) or
  raised (\<open>FailedRobots\<close>).
\<close>

datatype policy_event = GotRobots string | FailedRobots string

text \<open>
  The outside world of a policy: the answer to the \<open>n\<close>-th request (counted from 0) for a
  URL, and Python's \<^verbatim>\<open>float\<close>.
\<close>

record policy_env =
  request :: "nat \<Rightarrow> string \<Rightarrow> http_result"
  float_of :: "string \<Rightarrow> real option"

text \<open>
  The fields of \<^verbatim>\<open>PolitenessPolicy.__init__\<close>, and the trace of the requests made
  (\<open>pp_trace\<close>, which the Python object does not hold).
\<close>

record politeness_policy =
  pp_user_agent :: string
  pp_delay :: real
  pp_last_access_times :: "string \<rightharpoonup> real"
  pp_robots_cache :: "string \<rightharpoonup> policy_robots_parser"
  pp_trace :: "policy_event list"

definition PolitenessPolicy :: "string \<Rightarrow> real \<Rightarrow> politeness_policy" where
  "PolitenessPolicy user_agent delay =
     \<lparr>pp_user_agent = user_agent, pp_delay = delay, pp_last_access_times = Map.empty,
      pp_robots_cache = Map.empty, pp_trace = []\<rparr>"

text \<open>
  \<^verbatim>\<open>PolitenessPolicy.can_fetch\<close>. The cache is keyed by \<^verbatim>\<open>netloc\<close>. A parser is stored
  only when its constructor returns; when it raises, the method returns \<^verbatim>\<open>True\<close> and
  stores nothing.
\<close>

definition policy_can_fetch ::
  "policy_env \<Rightarrow> politeness_policy \<Rightarrow> parsed_url \<Rightarrow> bool \<times> politeness_policy" where
  "policy_can_fetch e s url =
     (case pp_robots_cache s (netloc url) of
        Some rp \<Rightarrow> (can_fetch rp (pp_user_agent s) url, s)
      | None \<Rightarrow>
          (case PolicyRobotsParser (float_of e)
                  (request e (length (pp_trace s)) (robots_txt_url url)) (pp_user_agent s) of
             Inr rp \<Rightarrow>
               (can_fetch rp (pp_user_agent s) url,
                s\<lparr>pp_robots_cache := (pp_robots_cache s)(netloc url \<mapsto> rp),
                  pp_trace := pp_trace s @ [GotRobots (netloc url)]\<rparr>)
           | Inl err \<Rightarrow>
               (True, s\<lparr>pp_trace := pp_trace s @ [FailedRobots (netloc url)]\<rparr>)))"

text \<open>
  \<^verbatim>\<open>PolitenessPolicy.respect_delay\<close>, given the value \<^verbatim>\<open>time.time()\<close> returns on entry.
  The result is the time slept (0 when \<^verbatim>\<open>time.sleep\<close> is not called) and the new state.
  The delay is \<^verbatim>\<open>self.delay\<close>; the time stored is \<^verbatim>\<open>current_time\<close>.
\<close>

definition respect_delay ::
  "real \<Rightarrow> politeness_policy \<Rightarrow> parsed_url \<Rightarrow> real \<times> politeness_policy" where
  "respect_delay current_time s url =
     (let sleep_time =
            (case pp_last_access_times s (netloc url) of
               None \<Rightarrow> 0
             | Some t \<Rightarrow>
                 if current_time - t < pp_delay s then pp_delay s - (current_time - t) else 0)
      in (sleep_time,
          s\<lparr>pp_last_access_times := (pp_last_access_times s)(netloc url \<mapsto> current_time)\<rparr>))"


text \<open>
  For concrete checks: a stand-in for \<^verbatim>\<open>float\<close> that reads integer literals and refuses
  everything else, a robots.txt with a \<^verbatim>\<open>Crawl-delay\<close> value that is no number, and a
  network that serves it for every request.
\<close>

definition float_of_int_literal :: "string \<Rightarrow> real option" where
  "float_of_int_literal s = map_option real_of_int (py_int s)"

definition robots_bad_delay :: string where
  "robots_bad_delay = ''User-agent: *\<newline>Crawl-delay: abc\<newline>Disallow: /x''"

definition env_bad_delay :: policy_env where
  "env_bad_delay =
     \<lparr>request = (\<lambda>n u. Response 200 robots_bad_delay), float_of = float_of_int_literal\<rparr>"

text \<open>
  \<^verbatim>\<open>PolitenessPolicy.can_fetch\<close> calls on one policy made one after the other: each call
  returns before the next one starts. The method holds no lock either; calls that
  overlap in several threads are not runs of this function.
\<close>

definition policy_can_fetch_all ::
  "policy_env \<Rightarrow> politeness_policy \<Rightarrow> parsed_url list \<Rightarrow> politeness_policy" where
  "policy_can_fetch_all e s urls = foldl (\<lambda>s url. snd (policy_can_fetch e s url)) s urls"

text \<open>
  Networks for concrete checks: every request raises; every request is answered 404;
  every request is answered 403.
\<close>

definition env_policy_down :: policy_env where
  "env_policy_down =
     \<lparr>request = (\<lambda>n u. RequestException), float_of = float_of_int_literal\<rparr>"

definition env_policy_404 :: policy_env where
  "env_policy_404 =
     \<lparr>request = (\<lambda>n u. Response 404 []), float_of = float_of_int_literal\<rparr>"

definition env_policy_403 :: policy_env where
  "env_policy_403 =
     \<lparr>request = (\<lambda>n u. Response 403 []), float_of = float_of_int_literal\<rparr>"

text \<open>The same invariant for the cache of a policy, per host.\<close>

definition got_once :: "politeness_policy \<Rightarrow> bool" where
  "got_once s =
     (\<forall>h. count_list (pp_trace s) (GotRobots h) \<le>
            (if pp_robots_cache s h = None then 0 else 1))"

text \<open>The parser of a robots.txt without rules, and a policy that has cached it for \<^verbatim>\<open>h\<close>.\<close>

definition empty_policy_parser :: "string \<Rightarrow> policy_robots_parser" where
  "empty_policy_parser user_agent =
     \<lparr>prp_user_agent = user_agent, disallowed_paths = [], crawl_delay = None\<rparr>"

definition cached_policy :: politeness_policy where
  "cached_policy =
     (PolitenessPolicy ''bot'' 1)
       \<lparr>pp_robots_cache := [''h'' \<mapsto> empty_policy_parser ''bot''], pp_trace := [GotRobots ''h'']\<rparr>"

text \<open>
  When the fetch that follows \<^verbatim>\<open>respect_delay\<close> starts: the time read on entry plus the
  time slept (the running time of the method itself is taken as 0).
\<close>

definition fetch_start :: "real \<Rightarrow> politeness_policy \<Rightarrow> parsed_url \<Rightarrow> real" where
  "fetch_start current_time s url = current_time + fst (respect_delay current_time s url)"




text \<open>A network that serves the robots.txt with an \<^verbatim>\<open>Allow\<close> line for every request.\<close>

definition env_policy_admin_public :: policy_env where
  "env_policy_admin_public =
     \<lparr>request = (\<lambda>n u. Response 200 robots_admin_public), float_of = float_of_int_literal\<rparr>"

section \<open>crawler_manager.py: CrawlerManager\<close>

text \<open>
  \<^verbatim>\<open>CrawlerManager\<close> never looks into a URL: URLs are plain strings here. Its
  collaborators are used through the calls the source makes:
  \<^item> \<open>can_crawl w url\<close> is the answer of \<^verbatim>\<open>self.can_crawl(url)\<close>;
  \<^item> \<open>page_links w n url\<close> is the outcome of the \<open>n\<close>-th call (counted from 0) of
    \<^verbatim>\<open>self.page_fetcher.fetch\<close> in the run, for \<open>url\<close>: \<open>None\<close> when no content comes back
    (or an exception leaves \<^verbatim>\<open>crawl\<close> before the lock, where the worker's handler
    catches it), and \<open>Some links\<close> with the value of
    \<^verbatim>\<open>extracted_data.get('links', [])\<close> otherwise.
  \<^verbatim>\<open>self.politeness_policy.enforce(url)\<close> only waits. The classes of the repository
  do not offer these calls as \<^verbatim>\<open>CrawlerManager\<close> makes them (\<^verbatim>\<open>PageFetcher\<close> asks for a
  user agent, and \<^verbatim>\<open>enforce\<close>, \<^verbatim>\<open>parse\<close> and \<^verbatim>\<open>extract\<close> are not among their methods), so
  the collaborators are parameters here, with the interface the calls assume.
\<close>

record web =
  can_crawl :: "string \<Rightarrow> bool"
  page_links :: "nat \<Rightarrow> string \<Rightarrow> string list option"

text \<open>
  What happens in a run, in order: a call of \<^verbatim>\<open>page_fetcher.fetch\<close>, a URL added to
  \<^verbatim>\<open>crawled_urls\<close>, a URL put on the queue by \<^verbatim>\<open>crawl\<close>.
\<close>

datatype crawl_event = Fetched string | Crawled string | Put string

text \<open>
  The shared fields of \<^verbatim>\<open>CrawlerManager\<close>: the queue (first in, first out) and the set of
  crawled URLs; and the record of the run (\<open>events\<close>, which the Python object does not hold).
\<close>

record crawler_manager =
  url_queue :: "string list"
  crawled_urls :: "string set"
  events :: "crawl_event list"


text \<open>
  Where a worker thread stands. The places are the points of \<^verbatim>\<open>worker\<close> and \<^verbatim>\<open>crawl\<close>
  between which other threads can run:
  \<^item> \<open>AtWhile\<close>: before the test \<^verbatim>\<open>not self.url_queue.empty()\<close>;
  \<^item> \<open>AtGet\<close>: the test was true, before \<^verbatim>\<open>self.url_queue.get()\<close>;
  \<^item> \<open>Gating url\<close>: holding \<open>url\<close>, before \<^verbatim>\<open>enforce\<close>, \<^verbatim>\<open>can_crawl\<close> and the fetch;
  \<^item> \<open>Marking url links\<close>: content extracted, before the lock that adds \<open>url\<close> to
    \<^verbatim>\<open>crawled_urls\<close>;
  \<^item> \<open>Putting links\<close>: in the loop over the new URLs, before the lock of the next one;
  \<^item> \<open>Finished\<close>: \<^verbatim>\<open>worker\<close> has returned.
\<close>

datatype place =
  AtWhile | AtGet | Gating string | Marking string "string list" | Putting "string list"
  | Finished

record crawl_state =
  manager :: crawler_manager
  threads :: "place list"

text \<open>
  One step of thread \<open>i\<close>; \<open>None\<close> when the thread cannot move: it has finished, or it is
  inside \<^verbatim>\<open>self.url_queue.get()\<close>, which blocks while the queue is empty (the call has no
  timeout). Each step is one atomic action of the source: a queue operation, or the body
  of one \<^verbatim>\<open>with self.lock\<close>.
\<close>

definition step :: "web \<Rightarrow> nat \<Rightarrow> crawl_state \<Rightarrow> crawl_state option" where
  "step w i st =
     (if i < length (threads st) then
        (case threads st ! i of
           AtWhile \<Rightarrow>
             Some (st\<lparr>threads :=
                (threads st)[i := if url_queue (manager st) = [] then Finished else AtGet]\<rparr>)
         | AtGet \<Rightarrow>
             (case url_queue (manager st) of
                [] \<Rightarrow> None
              | url # remaining \<Rightarrow>
                  Some (st\<lparr>manager := (manager st)\<lparr>url_queue := remaining\<rparr>,
                          threads := (threads st)[i := Gating url]\<rparr>))
         | Gating url \<Rightarrow>
             (if can_crawl w url then
                (case page_links w (length (filter (\<lambda>ev. case ev of Fetched u \<Rightarrow> True | _ \<Rightarrow> False)
                                             (events (manager st)))) url of
                   None \<Rightarrow>
                     Some (st\<lparr>manager := (manager st)\<lparr>events := events (manager st) @ [Fetched url]\<rparr>,
                             threads := (threads st)[i := AtWhile]\<rparr>)
                 | Some links \<Rightarrow>
                     Some (st\<lparr>manager := (manager st)\<lparr>events := events (manager st) @ [Fetched url]\<rparr>,
                             threads := (threads st)[i := Marking url links]\<rparr>))
              else Some (st\<lparr>threads := (threads st)[i := AtWhile]\<rparr>))
         | Marking url links \<Rightarrow>
             Some (st\<lparr>manager :=
                       (if url \<notin> crawled_urls (manager st) then
                          (manager st)\<lparr>crawled_urls := insert url (crawled_urls (manager st)),
                                       events := events (manager st) @ [Crawled url]\<rparr>
                        else manager st),
                     threads := (threads st)[i := Putting links]\<rparr>)
         | Putting links \<Rightarrow>
             (case links of
                [] \<Rightarrow> Some (st\<lparr>threads := (threads st)[i := AtWhile]\<rparr>)
              | new_url # others \<Rightarrow>
                  Some (st\<lparr>manager :=
                            (if new_url \<notin> crawled_urls (manager st) then
                               (manager st)\<lparr>url_queue := url_queue (manager st) @ [new_url],
                                            events := events (manager st) @ [Put new_url]\<rparr>
                             else manager st),
                          threads := (threads st)[i := Putting others]\<rparr>))
         | Finished \<Rightarrow> None)
      else None)"











section \<open>page_fetcher.py: PageFetcher.crawl\<close>

text \<open>
  The loop of \<^verbatim>\<open>PageFetcher.crawl\<close> over \<^verbatim>\<open>urls_to_visit\<close>, a list of pairs of a URL and
  its depth that is read from the front and extended at the back. \<open>links_of\<close> stands
  for \<^verbatim>\<open>extract_links\<close> followed by \<^verbatim>\<open>normalize_url\<close> on each link: the absolute links of
  a page, given its URL and content. A page is marked as visited after its fetch gave
  content (an empty text is content too); links that are visited already are not
  appended. The loop reads every entry once and appends entries of the next depth only
  for an entry within \<open>max_depth\<close>, which is why it comes to an end on every web.
\<close>

function crawl_loop ::
  "env \<Rightarrow> (parsed_url \<Rightarrow> string \<Rightarrow> parsed_url list) \<Rightarrow> int \<Rightarrow> (parsed_url \<times> nat) list \<Rightarrow>
   page_fetcher \<Rightarrow> page_fetcher" where
  "crawl_loop e links_of max_depth [] s = s"
| "crawl_loop e links_of max_depth ((current_url, depth) # urls_to_visit) s =
     (if int depth > max_depth \<or> current_url \<in> pf_visited_urls s then
        crawl_loop e links_of max_depth urls_to_visit s
      else
        (case fetch e s current_url of
           (None, s') \<Rightarrow> crawl_loop e links_of max_depth urls_to_visit s'
         | (Some page_content, s') \<Rightarrow>
             crawl_loop e links_of max_depth
               (urls_to_visit @
                map (\<lambda>absolute_link. (absolute_link, depth + 1))
                  (filter (\<lambda>absolute_link. absolute_link \<notin> insert current_url (pf_visited_urls s'))
                     (links_of current_url page_content)))
               (s'\<lparr>pf_visited_urls := insert current_url (pf_visited_urls s')\<rparr>)))"
  by pat_completeness auto
termination
proof (relation "inv_image (mult less_than)
    (\<lambda>(e, links_of, max_depth, urls_to_visit, s).
       mset (map (\<lambda>(u, d). nat (max_depth + 1 - int d)) urls_to_visit))")
  show "wf (inv_image (mult less_than)
    (\<lambda>(e, links_of, max_depth, urls_to_visit, s).
       mset (map (\<lambda>(u, d). nat (max_depth + 1 - int d)) urls_to_visit)))"
    by (simp add: wf_mult)
next
  fix e :: env and links_of :: "parsed_url \<Rightarrow> string \<Rightarrow> parsed_url list" and max_depth :: int
    and current_url :: parsed_url and depth :: nat and urls_to_visit :: "(parsed_url \<times> nat) list"
    and s :: page_fetcher
  show "((e, links_of, max_depth, urls_to_visit, s),
         (e, links_of, max_depth, (current_url, depth) # urls_to_visit, s))
        \<in> inv_image (mult less_than)
            (\<lambda>(e, links_of, max_depth, urls_to_visit, s).
               mset (map (\<lambda>(u, d). nat (max_depth + 1 - int d)) urls_to_visit))"
    by (simp add: subset_implies_mult)
next
  fix e :: env and links_of :: "parsed_url \<Rightarrow> string \<Rightarrow> parsed_url list" and max_depth :: int
    and current_url :: parsed_url and depth :: nat and urls_to_visit :: "(parsed_url \<times> nat) list"
    and s s' :: page_fetcher and x
  show "((e, links_of, max_depth, urls_to_visit, s'),
         (e, links_of, max_depth, (current_url, depth) # urls_to_visit, s))
        \<in> inv_image (mult less_than)
            (\<lambda>(e, links_of, max_depth, urls_to_visit, s).
               mset (map (\<lambda>(u, d). nat (max_depth + 1 - int d)) urls_to_visit))"
    by (simp add: subset_implies_mult)
next
  fix e :: env and links_of :: "parsed_url \<Rightarrow> string \<Rightarrow> parsed_url list" and max_depth :: int
    and current_url :: parsed_url and depth :: nat and urls_to_visit :: "(parsed_url \<times> nat) list"
    and s s' :: page_fetcher and page_content :: string
  assume d: "\<not> (max_depth < int depth \<or> current_url \<in> pf_visited_urls s)"
  let ?f = "\<lambda>(u, d). nat (max_depth + 1 - int d)"
  let ?new = "map (\<lambda>absolute_link. (absolute_link, depth + 1))
                (filter (\<lambda>absolute_link. absolute_link \<notin> insert current_url (pf_visited_urls s'))
                   (links_of current_url page_content))"
  have "(mset (map ?f urls_to_visit) + mset (map ?f ?new),
         mset (map ?f urls_to_visit) + {#nat (max_depth + 1 - int depth)#}) \<in> mult less_than"
  proof (rule one_step_implies_mult)
    show "{#nat (max_depth + 1 - int depth)#} \<noteq> {#}" by simp
    show "\<forall>k\<in>set_mset (mset (map ?f ?new)).
            \<exists>j\<in>set_mset {#nat (max_depth + 1 - int depth)#}. (k, j) \<in> less_than"
      using d by auto
  qed
  moreover have "mset (map ?f (urls_to_visit @ ?new)) =
                   mset (map ?f urls_to_visit) + mset (map ?f ?new)"
    by simp
  moreover have "mset (map ?f ((current_url, depth) # urls_to_visit)) =
                   mset (map ?f urls_to_visit) + {#nat (max_depth + 1 - int depth)#}"
    by simp
  ultimately show "((e, links_of, max_depth, urls_to_visit @ ?new,
          s'\<lparr>pf_visited_urls := insert current_url (pf_visited_urls s')\<rparr>),
         (e, links_of, max_depth, (current_url, depth) # urls_to_visit, s))
        \<in> inv_image (mult less_than)
            (\<lambda>(e, links_of, max_depth, urls_to_visit, s).
               mset (map (\<lambda>(u, d). nat (max_depth + 1 - int d)) urls_to_visit))"
    by (simp only: in_inv_image prod.case)
qed

definition crawl ::
  "env \<Rightarrow> (parsed_url \<Rightarrow> string \<Rightarrow> parsed_url list) \<Rightarrow> page_fetcher \<Rightarrow> parsed_url \<Rightarrow> int \<Rightarrow>
   page_fetcher" where
  "crawl e links_of s start_url max_depth = crawl_loop e links_of max_depth [(start_url, 0)] s"

text \<open>
  For concrete checks: a second page on the host \<^verbatim>\<open>h\<close>, a network that serves every
  page, and links that form a cycle with a duplicate: \<^verbatim>\<open>/a\<close> links to \<^verbatim>\<open>/b\<close> twice, and
  every other page links to \<^verbatim>\<open>/a\<close>.
\<close>

definition url_b :: parsed_url where
  "url_b = \<lparr>scheme = ''http'', netloc = ''h'', path = ''/b'', rest = ''''\<rparr>"

definition env_pages :: env where
  "env_pages =
     \<lparr>http_get = (\<lambda>n url. Some ''<html></html>''),
      robots_read = (\<lambda>n u. Some (\<lambda>agent url. True))\<rparr>"

definition links_cycle :: "parsed_url \<Rightarrow> string \<Rightarrow> parsed_url list" where
  "links_cycle url page_content = (if url = url_a then [url_b, url_b] else [url_a])"

section \<open>Retry and backoff\<close>

lemma fetch_loop_max_retries: "pf_max_retries (snd (fetch_loop e s url a)) = pf_max_retries s"
proof (induction e s url a rule: fetch_loop.induct)
  case (1 e s url attempt)
  show ?case
  proof (cases "int attempt < pf_max_retries s")
    case True
    then show ?thesis
      using "1.IH" by (subst fetch_loop.simps) (simp split: option.splits)
  next
    case False
    then show ?thesis by (subst fetch_loop.simps) simp
  qed
qed

lemma fetch_loop_all_fail:
  assumes "\<And>n. http_get e n url = None"
  shows "fetch_loop e s url a =
           (None, s\<lparr>pf_trace := pf_trace s @ backoff_events url a (nat (pf_max_retries s))\<rparr>)"
  using assms
proof (induction e s url a rule: fetch_loop.induct)
  case (1 e s url attempt)
  show ?case
  proof (cases "int attempt < pf_max_retries s")
    case True
    then have lt: "attempt < nat (pf_max_retries s)" by simp
    have ev: "backoff_events url attempt (nat (pf_max_retries s)) =
                [Get url, Sleep (2 * 2 ^ attempt)] @
                backoff_events url (Suc attempt) (nat (pf_max_retries s))"
      using lt by (simp add: backoff_events_def upt_conv_Cons)
    have none: "http_get e (length (pf_trace s)) url = None" by (rule "1.prems")
    show ?thesis
      using True none "1.IH" [OF True none "1.prems"]
      by (subst fetch_loop.simps) (simp add: ev)
  next
    case False
    then have "backoff_events url attempt (nat (pf_max_retries s)) = []"
      by (simp add: backoff_events_def)
    with False show ?thesis by (subst fetch_loop.simps) simp
  qed
qed

text \<open>
  C5, as stated, at its own example: \<open>max_retries = 3\<close> and every request fails. The
  sleeps are 2, 4 and 8 seconds, not 1, 2 and 4: \<^verbatim>\<open>attempt\<close> is incremented before
  \<^verbatim>\<open>time.sleep(2 ** attempt)\<close>. The call returns \<^verbatim>\<open>None\<close>, which says nothing about
  the cause of the last failure.
\<close>

theorem fetch_backoff_one_two_four_counterexample:
  "fst (fetch env_all_fail (PageFetcher ''SearchEngineBot/1.0'' 10 3) url_a) = None \<and>
   sleeps (pf_trace (snd (fetch env_all_fail (PageFetcher ''SearchEngineBot/1.0'' 10 3) url_a))) =
     [2, 4, 8] \<and>
   sleeps (pf_trace (snd (fetch env_all_fail (PageFetcher ''SearchEngineBot/1.0'' 10 3) url_a))) \<noteq>
     [1, 2, 4]"
  by code_simp

text \<open>
  C5, amended. When the robots check lets the URL through and every request for it
  fails, \<^verbatim>\<open>fetch\<close> makes exactly \<open>max_retries\<close> requests, sleeps after each failed
  request (the last one included), each sleep twice as long as the one before, does
  nothing else, and returns \<^verbatim>\<open>None\<close>. In the code the sleep after the failed attempt
  \<open>i\<close> (counted from 0) is \<open>2 * 2 ^ i\<close> seconds.
\<close>

theorem fetch_backoff_schedule:
  assumes "\<And>n. http_get e n url = None"
    and "is_allowed_by_robots e s url = (True, s')"
  shows "fetch e s url =
           (None, s'\<lparr>pf_trace := pf_trace s' @
                       concat (map (\<lambda>i. [Get url, Sleep (2 * 2 ^ i)])
                                [0..<nat (pf_max_retries s')])\<rparr>)"
  using fetch_loop_all_fail [OF assms(1), of s' 0] assms(2)
  by (simp add: fetch_def backoff_events_def)

theorem fetch_backoff_schedule_witness:
  "fst (fetch env_all_fail (PageFetcher ''SearchEngineBot/1.0'' 10 3) url_a) = None \<and>
   pf_trace (snd (fetch env_all_fail (PageFetcher ''SearchEngineBot/1.0'' 10 3) url_a)) =
     [ReadRobots ''http://h/robots.txt'',
      Get url_a, Sleep 2, Get url_a, Sleep 4, Get url_a, Sleep 8]"
proof -
  let ?s = "PageFetcher ''SearchEngineBot/1.0'' 10 3"
  let ?s' = "?s\<lparr>pf_robots_cache :=
                   (pf_robots_cache ?s)(''http://h/robots.txt'' \<mapsto> (\<lambda>agent url. True)),
                pf_trace := pf_trace ?s @ [ReadRobots ''http://h/robots.txt'']\<rparr>"
  have fail: "\<And>n. http_get env_all_fail n url_a = None"
    by (simp add: env_all_fail_def)
  have ok: "is_allowed_by_robots env_all_fail ?s url_a = (True, ?s')"
    by (simp add: is_allowed_by_robots_def env_all_fail_def PageFetcher_def robots_txt_url_def
        url_a_def Let_def)
  have n: "[0..<(3::nat)] = [0, 1, 2]"
    by (simp add: upt_rec)
  show ?thesis
    using fetch_backoff_schedule [OF fail ok] by (simp add: PageFetcher_def n)
qed

section \<open>Escaped patterns match literally\<close>

lemma special_not_alnum: "c \<in> set special_chars \<Longrightarrow> \<not> is_alnum c"
  by (auto simp: special_chars_def is_alnum_def)

lemma metachar_special: "c \<in> set re_metachars \<Longrightarrow> c \<in> set special_chars"
  by (auto simp: special_chars_def re_metachars_def)

lemma backslash_special: "backslash \<in> set special_chars"
  by (simp add: special_chars_def backslash_def)

text \<open>An escaped text is a literal pattern, and the text it stands for is the original.\<close>

lemma re_literal_escape: "re_literal (re_escape p) = Some p"
proof (induction p)
  case Nil
  then show ?case by (simp add: re_escape_def)
next
  case (Cons c p)
  have step: "re_escape (c # p) =
                (if c \<in> set special_chars then [backslash, c] else [c]) @ re_escape p"
    by (simp add: re_escape_def)
  show ?case
  proof (cases "c \<in> set special_chars")
    case True
    then show ?thesis using Cons special_not_alnum [OF True] by (simp add: step)
  next
    case False
    then have "c \<noteq> backslash" "c \<notin> set re_metachars"
      using backslash_special metachar_special by auto
    then show ?thesis using Cons False by (simp add: step)
  qed
qed

lemma re_match_escape: "re_match (re_escape p) q = Some (prefix p q)"
  by (simp add: re_match_def re_literal_escape)

lemma stored_rules_append:
  "stored_rules (append_rule s key p) key' =
     (if key' = key then stored_rules s key @ [re_escape p] else stored_rules s key')"
  by (simp add: stored_rules_def append_rule_def update_conv')

lemma some_rule_matches_stored:
  "some_rule_matches s key q =
     list_ex (\<lambda>rule. re_match rule q = Some True) (stored_rules s key)"
  by (simp add: some_rule_matches_def stored_rules_def split: option.splits)

lemma some_rule_matches_append:
  "some_rule_matches (append_rule s key p) key q \<longleftrightarrow>
     some_rule_matches s key q \<or> prefix p q"
  by (simp add: some_rule_matches_stored stored_rules_append re_match_escape)

section \<open>What a rule line stores\<close>

lemma upper_half_not_colon:
  assumes "192 \<le> (of_char c :: nat)" and "(of_char c :: nat) \<le> 222"
  shows "char_of ((of_char c :: nat) + 32) \<noteq> CHR '':''"
proof
  assume "char_of ((of_char c :: nat) + 32) = CHR '':''"
  then have "(of_char (char_of ((of_char c :: nat) + 32)) :: nat) = of_char CHR '':''"
    by simp
  then have m: "((of_char c :: nat) + 32) mod 256 = 58"
    by simp
  from assms have "(of_char c :: nat) + 32 < 256"
    by simp
  then have "((of_char c :: nat) + 32) mod 256 = of_char c + 32"
    by simp
  with m assms show False
    by simp
qed

lemma lower_char_colon: "lower_char c = CHR '':'' \<Longrightarrow> c = CHR '':''"
  by (auto simp: lower_char_def upper_half_not_colon split: option.splits if_splits)

lemma prefix_lower_colon:
  assumes "prefix (k @ '':'') (lower line)"
  shows "CHR '':'' \<in> set line"
proof -
  from assms obtain ys where eq: "map lower_char line = k @ '':'' @ ys"
    by (auto simp: prefix_def lower_def)
  then have "CHR '':'' \<in> set (map lower_char line)" by simp
  then obtain c where "c \<in> set line" "lower_char c = CHR '':''" by auto
  then show ?thesis using lower_char_colon by auto
qed

lemma value_of_rule_line:
  assumes "CHR '':'' \<in> set line"
  shows "py_index (split_on1 CHR '':'' line) (Suc 0) =
           Inr (tl (dropWhile (\<lambda>c. c \<noteq> CHR '':'') line))"
  using assms by (simp add: split_on1_def py_index_def)

lemma parse_rule_disallow:
  assumes "startswith (lower line) ''disallow:''"
  shows "parse_rule s line =
           Inr (if rule_value line \<noteq> [] then append_rule s ''disallow'' (rule_value line)
                else s)"
proof -
  have "CHR '':'' \<in> set line"
    using assms prefix_lower_colon [of "''disallow''" line] by (simp add: startswith_def)
  then show ?thesis
    using assms by (simp add: parse_rule_def value_of_rule_line rule_value_def)
qed

lemma parse_rule_allow:
  assumes "startswith (lower line) ''allow:''"
  shows "parse_rule s line =
           Inr (if rule_value line \<noteq> [] then append_rule s ''allow'' (rule_value line) else s)"
proof -
  have c: "CHR '':'' \<in> set line"
    using assms prefix_lower_colon [of "''allow''" line] by (simp add: startswith_def)
  have "\<not> startswith (lower line) ''disallow:''"
    using assms by (auto simp: startswith_def prefix_def)
  then show ?thesis
    using assms c by (simp add: parse_rule_def value_of_rule_line rule_value_def)
qed

lemma parse_rule_crawl_delay:
  assumes "startswith (lower line) ''crawl-delay:''"
  shows "parse_rule s line =
           (case py_int (rule_value line) of
              None \<Rightarrow> Inl ValueError
            | Some n \<Rightarrow> Inr (s\<lparr>rp_crawl_delay := Some n\<rparr>))"
proof -
  have c: "CHR '':'' \<in> set line"
    using assms prefix_lower_colon [of "''crawl-delay''" line] by (simp add: startswith_def)
  have "\<not> startswith (lower line) ''disallow:''" "\<not> startswith (lower line) ''allow:''"
    using assms by (auto simp: startswith_def prefix_def)
  then show ?thesis
    using assms c by (simp add: parse_rule_def value_of_rule_line rule_value_def)
qed

text \<open>
  With the stored rules known to be escaped path values, \<^verbatim>\<open>is_allowed\<close> is a test on
  prefixes of the path.
\<close>

lemma is_allowed_escaped:
  assumes "stored_rules s ''allow'' = map re_escape as"
    and "stored_rules s ''disallow'' = map re_escape ds"
  shows "is_allowed s url \<longleftrightarrow>
           list_ex (\<lambda>a. prefix a (path url)) as \<or> \<not> list_ex (\<lambda>d. prefix d (path url)) ds"
  using assms
  by (auto simp: is_allowed_def some_rule_matches_stored list_ex_iff re_match_escape)

lemma some_rule_matches_append_other:
  "key' \<noteq> key \<Longrightarrow>
     some_rule_matches (append_rule s key p) key' q \<longleftrightarrow> some_rule_matches s key' q"
  by (simp add: some_rule_matches_stored stored_rules_append)

lemma fresh_parser_allows: "is_allowed (RobotsParser ua) url"
  by (simp add: is_allowed_def some_rule_matches_def RobotsParser_def)

lemma fresh_parser_no_rule: "\<not> some_rule_matches (RobotsParser ua) key q"
  by (simp add: some_rule_matches_def RobotsParser_def)

lemma disallow_line_value:
  "startswith (lower ''Disallow: /a*$'') ''disallow:'' \<and>
   rule_value ''Disallow: /a*$'' = ''/a*$''"
  by (simp add: startswith_def lower_def lower_char_def rule_value_def strip_def is_space_def)

text \<open>
  C10. Robots patterns match literally. A stored pattern is \<^verbatim>\<open>re.escape\<close> of the path
  value, and \<^verbatim>\<open>re.match\<close> of an escaped value \<open>p\<close> against a path \<open>q\<close> succeeds exactly
  when \<open>q\<close> starts with the characters of \<open>p\<close>; so after a value \<open>p\<close> is stored under a
  key, a path matches a rule of that key exactly when it did before or starts with \<open>p\<close>.
  In \<^verbatim>\<open>is_allowed\<close> the stored value acts through that prefix test alone: storing \<open>p\<close>
  as a \<^verbatim>\<open>disallow\<close> rule turns the answer for a URL to \<^verbatim>\<open>False\<close> exactly when its path
  starts with \<open>p\<close> and no \<^verbatim>\<open>allow\<close> rule matches it, and storing \<open>p\<close> as an \<^verbatim>\<open>allow\<close>
  rule turns the answer to \<^verbatim>\<open>True\<close> exactly for the URLs whose path starts with \<open>p\<close>.
  A \<^verbatim>\<open>Disallow\<close> or \<^verbatim>\<open>Allow\<close> line with a non-empty value stores its value this way.
\<close>

theorem robots_patterns_match_literally:
  "re_match (re_escape p) q = Some (prefix p q) \<and>
   (some_rule_matches (append_rule s key p) key q \<longleftrightarrow>
      some_rule_matches s key q \<or> prefix p q) \<and>
   (is_allowed (append_rule s ''disallow'' p) url \<longleftrightarrow>
      is_allowed s url \<and>
      (some_rule_matches s ''allow'' (path url) \<or> \<not> prefix p (path url))) \<and>
   (is_allowed (append_rule s ''allow'' p) url \<longleftrightarrow>
      is_allowed s url \<or> prefix p (path url)) \<and>
   (startswith (lower line) ''disallow:'' \<and> rule_value line \<noteq> [] \<longrightarrow>
      parse_rule s line = Inr (append_rule s ''disallow'' (rule_value line))) \<and>
   (startswith (lower line) ''allow:'' \<and> rule_value line \<noteq> [] \<longrightarrow>
      parse_rule s line = Inr (append_rule s ''allow'' (rule_value line)))"
  by (simp add: re_match_escape some_rule_matches_append some_rule_matches_append_other
      is_allowed_def parse_rule_disallow parse_rule_allow)

text \<open>
  The characters \<^verbatim>\<open>*\<close> and \<^verbatim>\<open>$\<close> of a path value match themselves only: after the
  line \<^verbatim>\<open>Disallow: /a*$\<close>, the path \<^verbatim>\<open>/a*$/x\<close> is refused and the path \<^verbatim>\<open>/aaa\<close>, which
  the value read as a regular expression would match, is allowed.
\<close>

theorem robots_patterns_match_literally_witness:
  "re_match (re_escape ''/a*$'') ''/a*$/x'' = Some True \<and>
   re_match (re_escape ''/a*$'') ''/aaa'' = Some False \<and>
   parse_rule (RobotsParser ''*'') ''Disallow: /a*$'' =
     Inr (append_rule (RobotsParser ''*'') ''disallow'' ''/a*$'') \<and>
   \<not> is_allowed (append_rule (RobotsParser ''*'') ''disallow'' ''/a*$'') (url_path ''/a*$/x'') \<and>
   is_allowed (append_rule (RobotsParser ''*'') ''disallow'' ''/a*$'') (url_path ''/aaa'')"
proof -
  have p: "path (url_path q) = q" for q
    by (simp add: url_path_def)
  show ?thesis
    using robots_patterns_match_literally
            [of "''/a*$''" "''/a*$/x''" "RobotsParser ''*''" "''disallow''" "url_path ''/a*$/x''"
               "''Disallow: /a*$''"]
          robots_patterns_match_literally
            [of "''/a*$''" "''/aaa''" "RobotsParser ''*''" "''disallow''" "url_path ''/aaa''"
               "''Disallow: /a*$''"]
          disallow_line_value fresh_parser_allows fresh_parser_no_rule p
    by simp
qed

section \<open>Rule matching in robots_parser.py\<close>

lemma fetch_robots_admin:
  "fetch_robots (RobotsParser ''*'') (Response 200 robots_admin) = Inr parser_admin"
  by code_simp

lemma parser_admin_rules:
  "stored_rules parser_admin ''allow'' = map re_escape [] \<and>
   stored_rules parser_admin ''disallow'' = map re_escape [''/admin'']"
  by code_simp

lemma fetch_robots_admin_public:
  "fetch_robots (RobotsParser ''*'') (Response 200 robots_admin_public) =
     Inr parser_admin_public"
  by code_simp

lemma parser_admin_public_rules:
  "stored_rules parser_admin_public ''allow'' = map re_escape [''/admin/public''] \<and>
   stored_rules parser_admin_public ''disallow'' = map re_escape [''/admin'']"
  by code_simp

text \<open>
  Rule matching in robots_parser.py. For a parser whose stored rules are the escaped
  values \<open>as\<close> (allow) and \<open>ds\<close> (disallow), \<^verbatim>\<open>is_allowed\<close> is true exactly when some
  allow value is a prefix of the path or no disallow value is: an allow match wins over
  a disallow match, and a path that nothing matches is allowed. For the robots.txt whose
  only rule is \<^verbatim>\<open>Disallow: /admin\<close>, in the group \<^verbatim>\<open>User-agent: *\<close>, \<^verbatim>\<open>is_allowed\<close> is false
  exactly for the paths that start with \<^verbatim>\<open>/admin\<close>.
\<close>

lemma is_allowed_allow_precedence:
  "(stored_rules s ''allow'' = map re_escape as \<and>
    stored_rules s ''disallow'' = map re_escape ds \<longrightarrow>
      (is_allowed s url \<longleftrightarrow>
         list_ex (\<lambda>a. prefix a (path url)) as \<or>
         \<not> list_ex (\<lambda>d. prefix d (path url)) ds)) \<and>
   fetch_robots (RobotsParser ''*'') (Response 200 robots_admin) = Inr parser_admin \<and>
   (is_allowed parser_admin url \<longleftrightarrow> \<not> prefix ''/admin'' (path url))"
proof -
  have "is_allowed parser_admin url \<longleftrightarrow> \<not> prefix ''/admin'' (path url)"
    using is_allowed_escaped [of parser_admin "[]" "[''/admin'']" url] parser_admin_rules
    by simp
  then show ?thesis
    using is_allowed_escaped [of s as ds url] fetch_robots_admin
    by simp
qed

lemma is_allowed_admin_public:
  "is_allowed parser_admin_public (url_path ''/admin/public/page'') \<and>
   \<not> is_allowed parser_admin_public (url_path ''/admin/secret'') \<and>
   is_allowed parser_admin_public (url_path ''/index'')"
  using is_allowed_allow_precedence
          [of parser_admin_public "[''/admin/public'']" "[''/admin'']"
              "url_path ''/admin/public/page''"]
        is_allowed_allow_precedence
          [of parser_admin_public "[''/admin/public'']" "[''/admin'']"
              "url_path ''/admin/secret''"]
        is_allowed_allow_precedence
          [of parser_admin_public "[''/admin/public'']" "[''/admin'']" "url_path ''/index''"]
        parser_admin_public_rules
  by (simp add: url_path_def)

text \<open>
  The parser of politeness_policy.py stores the values of \<^verbatim>\<open>Disallow\<close> lines only, and
  its \<^verbatim>\<open>can_fetch\<close> is false exactly when one of them is a prefix of the path.
\<close>

lemma can_fetch_disallowed_prefix:
  "can_fetch rp agent url \<longleftrightarrow> \<not> list_ex (\<lambda>d. prefix d (path url)) (disallowed_paths rp)"
  by (simp add: can_fetch_def startswith_def)

text \<open>
  C6 at the robots.txt \<^verbatim>\<open>User-agent: *\<close>, \<^verbatim>\<open>Disallow: /admin\<close>, \<^verbatim>\<open>Allow: /admin/public\<close> and
  the URL path \<^verbatim>\<open>/admin/public/page\<close>, which an Allow pattern matches. The parser of
  politeness_policy.py has no branch for \<^verbatim>\<open>Allow\<close> lines: it stores \<^verbatim>\<open>/admin\<close> alone, and
  both its \<^verbatim>\<open>can_fetch\<close> and \<^verbatim>\<open>PolitenessPolicy.can_fetch\<close> answer \<^verbatim>\<open>False\<close>. The parser of
  robots_parser.py stores both rules from the same file, and its \<^verbatim>\<open>is_allowed\<close> answers
  \<^verbatim>\<open>True\<close>.
\<close>

theorem policy_parser_drops_allow_lines:
  "PolicyRobotsParser float_of_int_literal (Response 200 robots_admin_public) ''*'' =
     Inr \<lparr>prp_user_agent = ''*'', disallowed_paths = [''/admin''], crawl_delay = None\<rparr> \<and>
   \<not> can_fetch \<lparr>prp_user_agent = ''*'', disallowed_paths = [''/admin''], crawl_delay = None\<rparr>
       ''*'' (url_path ''/admin/public/page'') \<and>
   \<not> fst (policy_can_fetch env_policy_admin_public (PolitenessPolicy ''*'' 1)
            (url_path ''/admin/public/page'')) \<and>
   fetch_robots (RobotsParser ''*'') (Response 200 robots_admin_public) =
     Inr parser_admin_public \<and>
   is_allowed parser_admin_public (url_path ''/admin/public/page'')"
  by code_simp

section \<open>User-agent groups\<close>

text \<open>
  C7 at two inputs of robots_parser.py. A crawler named \<^verbatim>\<open>MyBot\<close> reads a file whose only
  group is \<^verbatim>\<open>User-agent: *\<close>: the group's rule is not applied, and \<^verbatim>\<open>/admin\<close> is allowed.
  A crawler with the default agent \<^verbatim>\<open>*\<close> reads a file whose only group is
  \<^verbatim>\<open>User-agent: OtherBot\<close>: the rule of that other agent is applied. The parser of
  politeness_policy.py applies the \<^verbatim>\<open>*\<close> group for \<^verbatim>\<open>MyBot\<close>, and does not apply the
  \<^verbatim>\<open>OtherBot\<close> group.
\<close>

theorem parse_robots_group_applicability:
  "parse_robots (RobotsParser ''MyBot'') ''User-agent: *\<newline>Disallow: /admin'' =
     Inr (RobotsParser ''MyBot'') \<and>
   is_allowed (RobotsParser ''MyBot'') (url_path ''/admin'') \<and>
   parse_robots (RobotsParser ''*'') ''User-agent: OtherBot\<newline>Disallow: /x'' =
     Inr ((RobotsParser ''*'')\<lparr>rp_rules := [(''disallow'', [''/x''])]\<rparr>) \<and>
   \<not> is_allowed ((RobotsParser ''*'')\<lparr>rp_rules := [(''disallow'', [''/x''])]\<rparr>)
       (url_path ''/x'') \<and>
   PolicyRobotsParser float_of_int_literal
     (Response 200 ''User-agent: *\<newline>Disallow: /admin'') ''MyBot'' =
     Inr \<lparr>prp_user_agent = ''MyBot'', disallowed_paths = [''/admin''], crawl_delay = None\<rparr> \<and>
   PolicyRobotsParser float_of_int_literal
     (Response 200 ''User-agent: OtherBot\<newline>Disallow: /x'') ''MyBot'' =
     Inr \<lparr>prp_user_agent = ''MyBot'', disallowed_paths = [], crawl_delay = None\<rparr>"
  by code_simp

section \<open>A Crawl-delay value that is no number\<close>

text \<open>
  C8 at a robots.txt with the line \<^verbatim>\<open>Crawl-delay: abc\<close>. In robots_parser.py \<^verbatim>\<open>int\<close>
  raises \<^verbatim>\<open>ValueError\<close>, which leaves \<^verbatim>\<open>parse_robots\<close> and \<^verbatim>\<open>fetch_robots\<close>: the rest of
  the file is not parsed. In politeness_policy.py the error of \<^verbatim>\<open>float\<close> becomes a
  \<^verbatim>\<open>RuntimeError\<close> of the constructor; \<^verbatim>\<open>can_fetch\<close> answers \<^verbatim>\<open>True\<close> for \<^verbatim>\<open>/x\<close>, which
  the file disallows, and caches nothing.
\<close>

theorem malformed_crawl_delay_raises:
  "parse_robots (RobotsParser ''*'') robots_bad_delay = Inl ValueError \<and>
   fetch_robots (RobotsParser ''*'') (Response 200 robots_bad_delay) = Inl ValueError \<and>
   PolicyRobotsParser float_of_int_literal (Response 200 robots_bad_delay) ''*'' =
     Inl RuntimeError \<and>
   fst (policy_can_fetch env_bad_delay (PolitenessPolicy ''*'' 1) (url_path ''/x'')) \<and>
   pp_robots_cache
     (snd (policy_can_fetch env_bad_delay (PolitenessPolicy ''*'' 1) (url_path ''/x''))) ''h'' =
     None"
  by code_simp

section \<open>Robots failures\<close>

lemma policy_parser_non_200:
  "code \<noteq> 200 \<Longrightarrow>
     PolicyRobotsParser f (Response code text) ua = Inr (empty_policy_parser ua)"
  by (simp add: PolicyRobotsParser_def fetch_robots_txt_def empty_policy_parser_def)

lemma policy_parser_raises: "PolicyRobotsParser f RequestException ua = Inl RuntimeError"
  by (simp add: PolicyRobotsParser_def fetch_robots_txt_def)

lemma can_fetch_empty: "can_fetch (empty_policy_parser ua) agent url"
  by (simp add: can_fetch_def empty_policy_parser_def)

lemma crawl_delay_empty: "crawl_delay (empty_policy_parser ua) = None"
  by (simp add: empty_policy_parser_def)

text \<open>
  Where the robots checks fail open. On a host whose robots.txt is not cached yet:
  \<^item> \<^verbatim>\<open>PolitenessPolicy.can_fetch\<close> answers \<^verbatim>\<open>True\<close> when the request raises, and caches
    nothing;
  \<^item> it answers \<^verbatim>\<open>True\<close> when the response has a status other than 200, caches a parser
    with no disallowed path and no crawl delay, and answers \<^verbatim>\<open>True\<close> from that cache for
    every later URL of the host;
  \<^item> \<^verbatim>\<open>PageFetcher.is_allowed_by_robots\<close> answers \<^verbatim>\<open>True\<close> when reading robots.txt raises,
    and caches nothing;
  \<^item> \<^verbatim>\<open>fetch_robots\<close> of robots_parser.py leaves the parser without rules and without
    crawl delay when the request raises or the status is not 200, and every URL is allowed.
\<close>

lemma robots_fail_open:
  "(pp_robots_cache s (netloc url) = None \<and>
    request e (length (pp_trace s)) (robots_txt_url url) = RequestException \<longrightarrow>
      fst (policy_can_fetch e s url) \<and>
      pp_robots_cache (snd (policy_can_fetch e s url)) = pp_robots_cache s) \<and>
   (pp_robots_cache s (netloc url) = None \<and>
    request e (length (pp_trace s)) (robots_txt_url url) = Response code body \<and>
    code \<noteq> 200 \<longrightarrow>
      fst (policy_can_fetch e s url) \<and>
      pp_robots_cache (snd (policy_can_fetch e s url)) (netloc url) =
        Some (empty_policy_parser (pp_user_agent s)) \<and>
      crawl_delay (empty_policy_parser (pp_user_agent s)) = None \<and>
      (netloc url' = netloc url \<longrightarrow>
         policy_can_fetch e' (snd (policy_can_fetch e s url)) url' =
           (True, snd (policy_can_fetch e s url)))) \<and>
   (pf_robots_cache p (robots_txt_url url) = None \<and>
    robots_read pe (length (pf_trace p)) (robots_txt_url url) = None \<longrightarrow>
      fst (is_allowed_by_robots pe p url) \<and>
      pf_robots_cache (snd (is_allowed_by_robots pe p url)) = pf_robots_cache p) \<and>
   (r = RequestException \<or> r = Response code body \<and> code \<noteq> 200 \<longrightarrow>
      fetch_robots (RobotsParser ua) r = Inr (RobotsParser ua) \<and>
      is_allowed (RobotsParser ua) url \<and> rp_crawl_delay (RobotsParser ua) = None)"
  by (auto simp: policy_can_fetch_def policy_parser_non_200 policy_parser_raises can_fetch_empty
      is_allowed_by_robots_def Let_def fetch_robots_def is_allowed_def some_rule_matches_def
      RobotsParser_def crawl_delay_empty)

text \<open>
  C3 at a host that answers the request for robots.txt with status 403 and serves its
  pages. In \<^verbatim>\<open>PageFetcher.is_allowed_by_robots\<close> that answer is not a failure of
  \<^verbatim>\<open>rp.read()\<close>: the standard parser returns with everything disallowed, the handler
  with \<^verbatim>\<open>return True\<close> is not reached, the check answers \<^verbatim>\<open>False\<close>, and \<^verbatim>\<open>fetch\<close> returns
  \<^verbatim>\<open>None\<close> without a request for the page. When reading robots.txt raises, the same check
  answers \<^verbatim>\<open>True\<close>. On the 403 answer \<^verbatim>\<open>PolitenessPolicy.can_fetch\<close> answers \<^verbatim>\<open>True\<close>, and
  \<^verbatim>\<open>fetch_robots\<close> of robots_parser.py leaves a parser without rules that allows the URL.
\<close>

theorem robots_403_denies:
  "\<not> fst (is_allowed_by_robots env_robots_403 (PageFetcher ''bot'' 10 3) url_a) \<and>
   fst (fetch env_robots_403 (PageFetcher ''bot'' 10 3) url_a) = None \<and>
   pf_trace (snd (fetch env_robots_403 (PageFetcher ''bot'' 10 3) url_a)) =
     [ReadRobots ''http://h/robots.txt''] \<and>
   fst (is_allowed_by_robots env_robots_down (PageFetcher ''bot'' 10 3) url_a) \<and>
   fst (policy_can_fetch env_policy_403 (PolitenessPolicy ''bot'' 1) url_a) \<and>
   fetch_robots (RobotsParser ''bot'') (Response 403 []) = Inr (RobotsParser ''bot'') \<and>
   is_allowed (RobotsParser ''bot'') url_a"
  by code_simp

section \<open>The robots caches\<close>

lemma is_allowed_by_robots_read_once:
  assumes "read_once s"
  shows "read_once (snd (is_allowed_by_robots e s url))"
proof -
  have c: "count_list (pf_trace s) (ReadRobots b) \<le>
             (if pf_robots_cache s b = None then 0 else 1)" for b
    using assms by (simp add: read_once_def)
  show ?thesis
    unfolding read_once_def
  proof (intro allI)
    fix b
    show "count_list (pf_trace (snd (is_allowed_by_robots e s url))) (ReadRobots b) \<le>
            (if pf_robots_cache (snd (is_allowed_by_robots e s url)) b = None then 0 else 1)"
      using c [of b] c [of "robots_txt_url url"]
      by (auto simp: is_allowed_by_robots_def Let_def split: option.splits)
  qed
qed

text \<open>The retry loop reads no robots.txt and leaves the cache alone.\<close>

lemma fetch_loop_keeps:
  "pf_robots_cache (snd (fetch_loop e s url a)) = pf_robots_cache s \<and>
   count_list (pf_trace (snd (fetch_loop e s url a))) (ReadRobots b) =
     count_list (pf_trace s) (ReadRobots b)"
proof (induction e s url a rule: fetch_loop.induct)
  case (1 e s url attempt)
  show ?case
  proof (cases "int attempt < pf_max_retries s")
    case True
    then show ?thesis
      using "1.IH" by (subst (1 2) fetch_loop.simps) (auto split: option.splits)
  next
    case False
    then show ?thesis by (subst (1 2) fetch_loop.simps) simp
  qed
qed

lemma fetch_loop_read_once: "read_once s \<Longrightarrow> read_once (snd (fetch_loop e s url a))"
  by (simp add: read_once_def fetch_loop_keeps)

lemma fetch_read_once:
  assumes "read_once s"
  shows "read_once (snd (fetch e s url))"
proof -
  obtain ok s' where a: "is_allowed_by_robots e s url = (ok, s')"
    by (cases "is_allowed_by_robots e s url")
  then have "read_once s'"
    using is_allowed_by_robots_read_once [OF assms, of e url] by simp
  then show ?thesis
    using a by (cases ok) (simp_all add: fetch_def fetch_loop_read_once)
qed

lemma fetch_all_read_once: "read_once s \<Longrightarrow> read_once (fetch_all e s urls)"
  unfolding fetch_all_def
  by (induction urls arbitrary: s) (simp_all add: fetch_read_once)

lemma policy_can_fetch_got_once:
  assumes "got_once s"
  shows "got_once (snd (policy_can_fetch e s url))"
proof -
  have c: "count_list (pp_trace s) (GotRobots h) \<le>
             (if pp_robots_cache s h = None then 0 else 1)" for h
    using assms by (simp add: got_once_def)
  show ?thesis
    unfolding got_once_def
  proof (intro allI)
    fix h
    show "count_list (pp_trace (snd (policy_can_fetch e s url))) (GotRobots h) \<le>
            (if pp_robots_cache (snd (policy_can_fetch e s url)) h = None then 0 else 1)"
      using c [of h] c [of "netloc url"]
      by (auto simp: policy_can_fetch_def split: option.splits sum.splits)
  qed
qed

lemma policy_can_fetch_all_got_once:
  "got_once s \<Longrightarrow> got_once (policy_can_fetch_all e s urls)"
  unfolding policy_can_fetch_all_def
  by (induction urls arbitrary: s) (simp_all add: policy_can_fetch_got_once)

text \<open>
  After a miss, \<^verbatim>\<open>is_allowed_by_robots\<close> is the branch that reads and stores.
\<close>

lemma is_allowed_by_robots_miss:
  "robots_cache_miss s url \<Longrightarrow> is_allowed_by_robots e s url = read_and_store e s url"
  by (simp add: robots_cache_miss_def is_allowed_by_robots_def read_and_store_def Let_def)

text \<open>
  C4, as stated. A resolution that raises is not cached: with robots.txt down, two
  fetches of one URL, one after the other, read robots.txt twice, and two \<^verbatim>\<open>can_fetch\<close>
  calls of a policy request it twice. And two calls of \<^verbatim>\<open>is_allowed_by_robots\<close> that
  overlap both miss the empty cache before either has stored its parser: both read
  robots.txt, with success.
\<close>

theorem robots_failure_not_cached_counterexample:
  "pf_trace (fetch_all env_robots_down (PageFetcher ''bot'' 10 3) [url_a, url_a]) =
     [ReadRobotsRaised ''http://h/robots.txt'', Get url_a,
      ReadRobotsRaised ''http://h/robots.txt'', Get url_a] \<and>
   pp_trace (policy_can_fetch_all env_policy_down (PolitenessPolicy ''bot'' 1) [url_a, url_a]) =
     [FailedRobots ''h'', FailedRobots ''h''] \<and>
   robots_cache_miss (PageFetcher ''bot'' 10 3) url_a \<and>
   pf_trace (snd (read_and_store env_all_fail
                    (snd (read_and_store env_all_fail (PageFetcher ''bot'' 10 3) url_a)) url_a)) =
     [ReadRobots ''http://h/robots.txt'', ReadRobots ''http://h/robots.txt'']"
  by code_simp

text \<open>
  C4, amended. When the fetches on a new \<^verbatim>\<open>PageFetcher\<close> are made one after the other,
  each robots.txt URL is read with success at most once; when the \<^verbatim>\<open>can_fetch\<close> calls on
  a new \<^verbatim>\<open>PolitenessPolicy\<close> are made one after the other, the parser of each host is
  constructed with success (a response of any status) at most once. A query that finds
  the host in the cache is answered from the cache: no request is made and the state
  does not change.
\<close>

theorem robots_resolved_once:
  "count_list (pf_trace (fetch_all e (PageFetcher ua t m) urls)) (ReadRobots b) \<le> 1 \<and>
   count_list (pp_trace (policy_can_fetch_all pe (PolitenessPolicy pua d) urls))
     (GotRobots h) \<le> 1 \<and>
   (pf_robots_cache s (robots_txt_url url) = Some rp \<longrightarrow>
      is_allowed_by_robots e s url = (rp (pf_user_agent s) url, s)) \<and>
   (pp_robots_cache ps (netloc url) = Some prp \<longrightarrow>
      policy_can_fetch pe ps url = (can_fetch prp (pp_user_agent ps) url, ps))"
proof -
  have "read_once (PageFetcher ua t m)"
    by (simp add: read_once_def PageFetcher_def)
  then have "read_once (fetch_all e (PageFetcher ua t m) urls)"
    by (rule fetch_all_read_once)
  then have a: "count_list (pf_trace (fetch_all e (PageFetcher ua t m) urls)) (ReadRobots b) \<le> 1"
    by (auto simp: read_once_def dest!: spec [of _ b] split: if_splits)
  have "got_once (PolitenessPolicy pua d)"
    by (simp add: got_once_def PolitenessPolicy_def)
  then have "got_once (policy_can_fetch_all pe (PolitenessPolicy pua d) urls)"
    by (rule policy_can_fetch_all_got_once)
  then have b: "count_list (pp_trace (policy_can_fetch_all pe (PolitenessPolicy pua d) urls))
                  (GotRobots h) \<le> 1"
    by (auto simp: got_once_def dest!: spec [of _ h] split: if_splits)
  show ?thesis
    using a b by (simp add: is_allowed_by_robots_def Let_def policy_can_fetch_def)
qed

theorem robots_resolved_once_witness:
  "count_list (pf_trace (fetch_all env_all_fail (PageFetcher ''bot'' 10 1) [url_a, url_a]))
     (ReadRobots ''http://h/robots.txt'') \<le> 1 \<and>
   is_allowed_by_robots env_robots_down cached_fetcher url_a = (True, cached_fetcher) \<and>
   policy_can_fetch env_policy_down cached_policy url_a = (True, cached_policy)"
proof -
  have c1: "pf_robots_cache cached_fetcher (robots_txt_url url_a) = Some (\<lambda>agent url. True)"
    by (simp add: cached_fetcher_def robots_txt_url_def url_a_def)
  have c2: "pp_robots_cache cached_policy (netloc url_a) = Some (empty_policy_parser ''bot'')"
    by (simp add: cached_policy_def url_a_def)
  show ?thesis
    using robots_resolved_once
            [where e = env_all_fail and ua = "''bot''" and t = 10 and m = 1
               and urls = "[url_a, url_a]" and b = "''http://h/robots.txt''"
               and pe = env_policy_down and pua = "''bot''" and d = 1 and h = "''h''"
               and s = cached_fetcher and url = url_a and rp = "\<lambda>agent url. True"
               and ps = cached_policy and prp = "empty_policy_parser ''bot''"]
          robots_resolved_once
            [where e = env_robots_down and ua = "''bot''" and t = 10 and m = 1
               and urls = "[url_a, url_a]" and b = "''http://h/robots.txt''"
               and pe = env_policy_down and pua = "''bot''" and d = 1 and h = "''h''"
               and s = cached_fetcher and url = url_a and rp = "\<lambda>agent url. True"
               and ps = cached_policy and prp = "empty_policy_parser ''bot''"]
          c1 c2 can_fetch_empty [of "''bot''" "pp_user_agent cached_policy" url_a]
    by simp
qed

section \<open>The politeness wait\<close>





text \<open>
  The time stored is the one read on entry, before the sleep. With the default delay of
  1 second and no robots.txt in play, calls at times 0, 0.5 and 1 let the fetches start
  at 0, 1 and 1.5: the last two are half a second apart.
\<close>

lemma respect_delay_stored_time_is_entry_time:
  "fetch_start 0 (PolitenessPolicy ''bot'' 1) url_a = 0 \<and>
   fetch_start (1 / 2) (snd (respect_delay 0 (PolitenessPolicy ''bot'' 1) url_a)) url_a = 1 \<and>
   fetch_start 1
     (snd (respect_delay (1 / 2) (snd (respect_delay 0 (PolitenessPolicy ''bot'' 1) url_a)) url_a))
     url_a = 3 / 2"
  by (simp add: fetch_start_def respect_delay_def PolitenessPolicy_def url_a_def)

section \<open>The crawled set of CrawlerManager\<close>













section \<open>Workers that wait for ever\<close>






section \<open>The sequential crawl of PageFetcher\<close>

text \<open>
  \<^verbatim>\<open>PageFetcher.crawl\<close> runs in one thread and waits on no queue. On the cycle with a
  duplicate link it returns after one robots.txt read and one request for each of the
  two pages.
\<close>

lemma crawl_cycle_returns:
  "pf_trace (crawl env_pages links_cycle (PageFetcher ''bot'' 10 3) url_a 3) =
     [ReadRobots ''http://h/robots.txt'', Get url_a, Get url_b] \<and>
   pf_visited_urls (crawl env_pages links_cycle (PageFetcher ''bot'' 10 3) url_a 3) =
     {url_a, url_b}"
  by code_simp

end
